theory Spec2Isabelle
  imports Complex_Main
begin

section \<open>Numbers and errors\<close>

text \<open>
  The strategy scripts \<^verbatim>\<open>whipsaw_0.1.py\<close> and \<^verbatim>\<open>whipsaw_0.2.py\<close> compute with
  Python floats and ints. Numbers are modelled as exact rationals: every property below is
  about the control flow, the signs and the comparisons of the code, and the concrete
  inputs used below (small integers and fractions with small denominators) are chosen so
  that binary floating point gives the same results.

  Python's \<^verbatim>\<open>round(x)\<close> with one argument returns an int and rounds halves
  to the even neighbour.
\<close>

definition py_round :: "rat \<Rightarrow> int" where
  "py_round x =
     (let f = \<lfloor>x\<rfloor>; d = x - of_int f
      in if d < 1 / 2 then f
         else if 1 / 2 < d then f + 1
         else if even f then f else f + 1)"

text \<open>
  The exceptions the modelled code can raise. A failed \<^verbatim>\<open>assert\<close> is the only
  invariant check the scripts have; it is what the specification calls
  \<^verbatim>\<open>UnitCorrupted\<close>.
\<close>

datatype error = AssertionError | ZeroDivisionError | KeyError | TypeError

section \<open>Classifying the live exposure\<close>

text \<open>
  \<^verbatim>\<open>run\<close>, whipsaw_0.2.py lines 66-82 (whipsaw_0.1.py lines 60-74 and 95): both flags
  start False, each is set by its own strict comparison with 100, and the branch taken
  afterwards is the flat one when neither is set, the long one when \<^verbatim>\<open>is_long\<close>
  is set and the short one otherwise.
\<close>

datatype direction = Flat | Long | Short

definition classify :: "rat \<Rightarrow> direction" where
  "classify current_unit_size =
     (let is_short = False;
          is_long = False;
          is_long = (if current_unit_size > 100 then True else is_long);
          is_short = (if current_unit_size < - 100 then True else is_short)
      in if \<not> is_long \<and> \<not> is_short then Flat
         else if is_long then Long
         else Short)"

section \<open>Remaining compound orders\<close>

text \<open>
  \<^verbatim>\<open>run\<close>, whipsaw_0.2.py lines 185-195, step (7) of the branch for a unit that is
  not full. The two sizes are the values stored in the json record. The division by
  \<^verbatim>\<open>max_entry_size\<close> raises \<^verbatim>\<open>ZeroDivisionError\<close> when it is zero; the two
  assertions follow in the order of the source.
\<close>

definition remaining_orders :: "rat \<Rightarrow> rat \<Rightarrow> error + int" where
  "remaining_orders max_unit_size current_unit_size =
     (let max_entry_size = max_unit_size / 4
      in if max_entry_size = 0 then Inl ZeroDivisionError
         else
           (let remaining = py_round ((max_unit_size - current_unit_size) / max_entry_size)
            in if \<not> remaining < 4 then Inl AssertionError
               else if \<not> remaining > 0 then Inl AssertionError
               else Inr remaining))"

text \<open>
  The formula of the specification, in its words: the magnitude of the current unit size
  is subtracted.
\<close>

definition spec_remainingTranches :: "rat \<Rightarrow> rat \<Rightarrow> int" where
  "spec_remainingTranches max_unit_size current_unit_size =
     py_round ((max_unit_size - \<bar>current_unit_size\<bar>) / (max_unit_size / 4))"

section \<open>The persisted record of whipsaw_0.2.py\<close>

text \<open>
  \<^verbatim>\<open>entry_data.json\<close> holds, for each instrument symbol, a \<^verbatim>\<open>unitInfo\<close> object and an
  \<^verbatim>\<open>entryInfo\<close> object of entry dictionaries in file order. Every entry dictionary has
  the nine keys the code writes. \<^verbatim>\<open>isLong\<close> and \<^verbatim>\<open>isShort\<close> hold a json boolean, or
  the empty string that \<^verbatim>\<open>clear_unit_info_from_json\<close> writes.
\<close>

record order_info =
  action :: string
  orderType :: string
  tif :: string
  totalQuantity :: rat
  transmit :: bool
  priceCondition :: rat
  orderRef :: string
  isMore :: bool
  slPrice :: rat

datatype flag = Blank | Flag bool

record unit_info =
  maxUnitSize :: rat
  currentUnitSize :: rat
  exitAllPrice :: rat
  isLong :: flag
  isShort :: flag
  longEntry :: order_info
  shortEntry :: order_info

record unit_data =
  unitInfo :: unit_info
  entryInfo :: "(string \<times> order_info) list"

type_synonym data_dict = "string \<rightharpoonup> unit_data"

text \<open>
  \<^verbatim>\<open>save_data_to_json\<close> replaces the content of the file by the dictionary it is given;
  \<^verbatim>\<open>get_data_from_json\<close> returns the content of the file.
\<close>

definition save_data_to_json :: "data_dict \<Rightarrow> data_dict \<Rightarrow> data_dict" where
  "save_data_to_json data_dict file = data_dict"

definition get_data_from_json :: "data_dict \<Rightarrow> data_dict" where
  "get_data_from_json file = file"

subsection \<open>\<^verbatim>\<open>save_unit_info_to_json\<close>, lines 434-476\<close>

text \<open>
  The keyword arguments of a call: an argument that is left out is \<open>None\<close>, and
  \<^verbatim>\<open>kwargs.get(name, False)\<close> reads it as \<^verbatim>\<open>False\<close>. The \<^verbatim>\<open>if\<close> tests are Python
  truth tests: a number is true when it is not zero, a boolean when it is
  \<^verbatim>\<open>True\<close>, an entry dictionary (never empty) always.
\<close>

record unit_kwargs =
  max_unit_size :: "rat option"
  current_unit_size :: "rat option"
  exit_all_price :: "rat option"
  is_short :: "bool option"
  is_long :: "bool option"
  long_entry :: "order_info option"
  short_entry :: "order_info option"

definition no_kwargs :: unit_kwargs where
  "no_kwargs =
     \<lparr>max_unit_size = None, current_unit_size = None, exit_all_price = None,
      is_short = None, is_long = None, long_entry = None, short_entry = None\<rparr>"

text \<open>
  One function for each of the seven \<^verbatim>\<open>if\<close> statements of lines 460-473, in the order of
  the source.
\<close>

definition store_max_unit_size :: "rat option \<Rightarrow> unit_info \<Rightarrow> unit_info" where
  "store_max_unit_size arg unit_info =
     (case arg of
        Some v \<Rightarrow> if v = 0 then unit_info else unit_info\<lparr>maxUnitSize := v\<rparr>
      | None \<Rightarrow> unit_info)"

definition store_current_unit_size :: "rat option \<Rightarrow> unit_info \<Rightarrow> unit_info" where
  "store_current_unit_size arg unit_info =
     (case arg of
        Some v \<Rightarrow> if v = 0 then unit_info else unit_info\<lparr>currentUnitSize := v\<rparr>
      | None \<Rightarrow> unit_info)"

definition store_exit_all_price :: "rat option \<Rightarrow> unit_info \<Rightarrow> unit_info" where
  "store_exit_all_price arg unit_info =
     (case arg of
        Some v \<Rightarrow> if v = 0 then unit_info else unit_info\<lparr>exitAllPrice := v\<rparr>
      | None \<Rightarrow> unit_info)"

definition store_is_long :: "bool option \<Rightarrow> unit_info \<Rightarrow> unit_info" where
  "store_is_long arg unit_info =
     (case arg of
        Some b \<Rightarrow> if b then unit_info\<lparr>isLong := Flag b\<rparr> else unit_info
      | None \<Rightarrow> unit_info)"

definition store_is_short :: "bool option \<Rightarrow> unit_info \<Rightarrow> unit_info" where
  "store_is_short arg unit_info =
     (case arg of
        Some b \<Rightarrow> if b then unit_info\<lparr>isShort := Flag b\<rparr> else unit_info
      | None \<Rightarrow> unit_info)"

definition store_long_entry :: "order_info option \<Rightarrow> unit_info \<Rightarrow> unit_info" where
  "store_long_entry arg unit_info =
     (case arg of
        Some e \<Rightarrow> unit_info\<lparr>longEntry := e\<rparr>
      | None \<Rightarrow> unit_info)"

definition store_short_entry :: "order_info option \<Rightarrow> unit_info \<Rightarrow> unit_info" where
  "store_short_entry arg unit_info =
     (case arg of
        Some e \<Rightarrow> unit_info\<lparr>shortEntry := e\<rparr>
      | None \<Rightarrow> unit_info)"

definition save_unit_info_to_json ::
    "string \<Rightarrow> unit_kwargs \<Rightarrow> data_dict \<Rightarrow> error + data_dict" where
  "save_unit_info_to_json local_symbol kwargs file =
     (let data_dict = get_data_from_json file
      in case data_dict local_symbol of
           None \<Rightarrow> Inl KeyError
         | Some symbol_data \<Rightarrow>
             (let unit_info = unitInfo symbol_data;
                  unit_info = store_max_unit_size (max_unit_size kwargs) unit_info;
                  unit_info = store_current_unit_size (current_unit_size kwargs) unit_info;
                  unit_info = store_exit_all_price (exit_all_price kwargs) unit_info;
                  unit_info = store_is_long (is_long kwargs) unit_info;
                  unit_info = store_is_short (is_short kwargs) unit_info;
                  unit_info = store_long_entry (long_entry kwargs) unit_info;
                  unit_info = store_short_entry (short_entry kwargs) unit_info
              in Inr (save_data_to_json
                        (data_dict(local_symbol \<mapsto> symbol_data\<lparr>unitInfo := unit_info\<rparr>))
                        file)))"

subsection \<open>\<^verbatim>\<open>clear_orders_from_json\<close>, lines 513-539\<close>

text \<open>
  The inner loop runs over the keys of \<^verbatim>\<open>entryInfo\<close>. On a match the source assigns
  the blank dictionary to the loop variable \<^verbatim>\<open>order_data\<close>, which leaves
  \<^verbatim>\<open>data_dict\<close> as it was loaded, and then writes \<^verbatim>\<open>data_dict\<close> to the file.
\<close>

fun clear_keys :: "data_dict \<Rightarrow> string \<Rightarrow> string list \<Rightarrow> data_dict \<Rightarrow> data_dict" where
  "clear_keys data_dict order_name [] file = file"
| "clear_keys data_dict order_name (order_data # keys) file =
     clear_keys data_dict order_name keys
       (if order_data = order_name then save_data_to_json data_dict file else file)"

fun clear_names ::
    "data_dict \<Rightarrow> string \<Rightarrow> string list \<Rightarrow> data_dict \<Rightarrow> error + data_dict" where
  "clear_names data_dict local_symbol [] file = Inr file"
| "clear_names data_dict local_symbol (order_name # names) file =
     (case data_dict local_symbol of
        None \<Rightarrow> Inl KeyError
      | Some symbol_data \<Rightarrow>
          clear_names data_dict local_symbol names
            (clear_keys data_dict order_name (map fst (entryInfo symbol_data)) file))"

definition all_order_names :: "string list" where
  "all_order_names =
     [''entryA'', ''entryB'', ''entryC'', ''entryD'', ''slA'', ''slB'', ''slC'', ''slD'']"

definition clear_orders_from_json ::
    "string \<Rightarrow> string list \<Rightarrow> data_dict \<Rightarrow> error + data_dict" where
  "clear_orders_from_json local_symbol order_name_list file =
     clear_names (get_data_from_json file) local_symbol order_name_list file"

text \<open>The seven statements in sequence: the \<^verbatim>\<open>unitInfo\<close> object that is written back.\<close>

definition stored_unit_info :: "unit_kwargs \<Rightarrow> unit_info \<Rightarrow> unit_info" where
  "stored_unit_info kwargs unit_info =
     store_short_entry (short_entry kwargs)
       (store_long_entry (long_entry kwargs)
         (store_is_short (is_short kwargs)
           (store_is_long (is_long kwargs)
             (store_exit_all_price (exit_all_price kwargs)
               (store_current_unit_size (current_unit_size kwargs)
                 (store_max_unit_size (max_unit_size kwargs) unit_info))))))"

subsection \<open>Example records\<close>

text \<open>
  A long unit of 15000 with its first tranche filled, and the record of an instrument
  without a position. The prices are dyadic fractions.
\<close>

definition blank_order_info :: order_info where
  "blank_order_info =
     \<lparr>action = '''', orderType = '''', tif = '''', totalQuantity = 0, transmit = False,
      priceCondition = 0, orderRef = '''', isMore = False, slPrice = 0\<rparr>"

definition entryA_long :: order_info where
  "entryA_long =
     \<lparr>action = ''BUY'', orderType = ''MKT'', tif = ''GTC'', totalQuantity = 15000,
      transmit = False, priceCondition = 5 / 4, orderRef = ''EUR.USDentryA'',
      isMore = True, slPrice = 9 / 8\<rparr>"

definition entryA_short :: order_info where
  "entryA_short =
     \<lparr>action = ''SELL'', orderType = ''MKT'', tif = ''GTC'', totalQuantity = 15000,
      transmit = False, priceCondition = 5 / 4, orderRef = ''EUR.USDentryA'',
      isMore = False, slPrice = 11 / 8\<rparr>"

definition long_unit :: unit_data where
  "long_unit =
     \<lparr>unitInfo =
        \<lparr>maxUnitSize = 60000, currentUnitSize = 15000, exitAllPrice = 1,
         isLong = Flag True, isShort = Flag False,
         longEntry = entryA_long, shortEntry = blank_order_info\<rparr>,
      entryInfo =
        [(''entryA'', entryA_long), (''entryB'', blank_order_info),
         (''entryC'', blank_order_info), (''entryD'', blank_order_info)]\<rparr>"

definition flat_unit :: unit_data where
  "flat_unit =
     \<lparr>unitInfo =
        \<lparr>maxUnitSize = 0, currentUnitSize = 0, exitAllPrice = 0,
         isLong = Flag False, isShort = Flag False,
         longEntry = blank_order_info, shortEntry = blank_order_info\<rparr>,
      entryInfo =
        [(''entryA'', blank_order_info), (''entryB'', blank_order_info),
         (''entryC'', blank_order_info), (''entryD'', blank_order_info)]\<rparr>"

definition example_file :: data_dict where
  "example_file = [''EUR.USD'' \<mapsto> long_unit, ''GBP.JPY'' \<mapsto> flat_unit]"

definition falsy_kwargs :: unit_kwargs where
  "falsy_kwargs = no_kwargs\<lparr>current_unit_size := Some 0, exit_all_price := Some 0,
     is_long := Some False, is_short := Some False\<rparr>"

section \<open>Orders of whipsaw_0.2.py\<close>

text \<open>
  An \<^verbatim>\<open>Order\<close> as \<^verbatim>\<open>create_order\<close> (lines 826-865) fills it in. The optional keyword
  arguments default to the string \<^verbatim>\<open>"ERROR"\<close>, which stands for an argument that is left
  out (\<open>None\<close> here); the parent and the reference are set only when given, and the one
  price condition only when both a price and a direction are given.
\<close>

record price_condition =
  pc_isMore :: bool
  pc_price :: rat

record order =
  orderId :: nat
  ord_action :: string
  ord_orderType :: string
  ord_totalQuantity :: rat
  ord_transmit :: bool
  ord_tif :: string
  parentId :: "nat option"
  ord_orderRef :: "string option"
  conditions :: "price_condition list"

definition create_order ::
    "nat \<Rightarrow> string \<Rightarrow> string \<Rightarrow> string \<Rightarrow> rat \<Rightarrow> bool \<Rightarrow>
     bool option \<Rightarrow> rat option \<Rightarrow> nat option \<Rightarrow> string option \<Rightarrow> order" where
  "create_order order_id action' order_type tif' total_quantity transmit'
       is_more price_condition parent_id order_ref =
     \<lparr>orderId = order_id, ord_action = action', ord_orderType = order_type,
      ord_totalQuantity = total_quantity, ord_transmit = transmit', ord_tif = tif',
      parentId = parent_id, ord_orderRef = order_ref,
      conditions =
        (case price_condition of
           None \<Rightarrow> []
         | Some p \<Rightarrow>
             (case is_more of
                None \<Rightarrow> []
              | Some m \<Rightarrow> [\<lparr>pc_isMore = m, pc_price = p\<rparr>]))\<rparr>"

text \<open>\<^verbatim>\<open>s[-1:]\<close>: the last character as a string, empty for the empty string.\<close>

definition last_char :: "string \<Rightarrow> string" where
  "last_char s = (if s = [] then [] else [last s])"

text \<open>\<^verbatim>\<open>a in b\<close> on strings.\<close>

fun starts_with :: "string \<Rightarrow> string \<Rightarrow> bool" where
  "starts_with [] s = True"
| "starts_with (a # as) [] = False"
| "starts_with (a # as) (b # bs) = (a = b \<and> starts_with as bs)"

fun contains :: "string \<Rightarrow> string \<Rightarrow> bool" where
  "contains a [] = (a = [])"
| "contains a (b # bs) = (starts_with a (b # bs) \<or> contains a bs)"

subsection \<open>\<^verbatim>\<open>create_unit_leg\<close>, lines 583-644\<close>

text \<open>
  The entry, its stop and its exit, built from the entry dictionary the file holds under
  \<^verbatim>\<open>entry_json_id\<close>. Each call of \<^verbatim>\<open>getReqId\<close> returns the next identifier;
  \<open>req_id\<close> is the next one on entry, and the next one after the call is returned with
  the orders. The default \<^verbatim>\<open>tif\<close> of \<^verbatim>\<open>create_order\<close> is \<^verbatim>\<open>"GTC"\<close>.
\<close>

definition create_unit_leg ::
    "string \<Rightarrow> string \<Rightarrow> nat \<Rightarrow> data_dict \<Rightarrow> error + ((string \<times> order) list \<times> nat)" where
  "create_unit_leg entry_json_id local_symbol req_id file =
     (case get_data_from_json file local_symbol of
        None \<Rightarrow> Inl KeyError
      | Some data_dict \<Rightarrow>
          (case (if contains ''long'' entry_json_id
                   then Some (longEntry (unitInfo data_dict))
                 else if contains ''short'' entry_json_id
                   then Some (shortEntry (unitInfo data_dict))
                 else map_of (entryInfo data_dict) entry_json_id) of
             None \<Rightarrow> Inl KeyError
           | Some entry_data \<Rightarrow>
               (let entry_action = action entry_data;
                    order_type = orderType entry_data;
                    total_quantity = totalQuantity entry_data;
                    entry_price_condition = priceCondition entry_data;
                    sl_price_condition = slPrice entry_data;
                    entry_order_ref = orderRef entry_data;
                    sl_order_ref = local_symbol @ ''sl'' @ last_char entry_order_ref;
                    exit_order_ref = local_symbol @ ''exit'' @ last_char entry_order_ref;
                    exit_price_condition = exitAllPrice (unitInfo data_dict);
                    entry_is_more = isMore entry_data;
                    sl_is_more = (\<not> entry_is_more);
                    sl_action =
                      (if entry_action = ''BUY'' then ''SELL''
                       else if entry_action = ''SELL'' then ''BUY'' else '''');
                    entry_order =
                      create_order req_id entry_action order_type ''GTC'' total_quantity
                        False (Some entry_is_more) (Some entry_price_condition) None
                        (Some entry_order_ref);
                    sl_order =
                      create_order (req_id + 1) sl_action order_type ''GTC'' total_quantity
                        False (Some sl_is_more) (Some sl_price_condition)
                        (Some (orderId entry_order)) (Some sl_order_ref);
                    exit_order =
                      create_order (req_id + 2) sl_action order_type ''GTC'' total_quantity
                        True (Some sl_is_more) (Some exit_price_condition)
                        (Some (orderId entry_order)) (Some exit_order_ref)
                in Inr ([(''entry_order'', entry_order), (''sl_order'', sl_order),
                         (''exit_order'', exit_order)], req_id + 3))))"

subsection \<open>\<^verbatim>\<open>generate_compound_entry_info\<close>, lines 292-349\<close>

text \<open>
  The dictionary the function builds for one tag. Action, price, direction and stop price
  start as \<^verbatim>\<open>None\<close> and stay so when neither flag is true. \<open>sl_size\<close> is the value
  \<^verbatim>\<open>get_atr_multiple\<close> returns for the instrument, read from the market data.
\<close>

record compound_entry =
  ce_action :: "string option"
  ce_orderType :: string
  ce_tif :: string
  ce_totalQuantity :: int
  ce_transmit :: bool
  ce_priceCondition :: "rat option"
  ce_orderRef :: string
  ce_isMore :: "bool option"
  ce_slPrice :: "rat option"

definition truthy :: "flag \<Rightarrow> bool" where
  "truthy v = (v = Flag True)"

definition compound_entry_for ::
    "unit_data \<Rightarrow> string \<Rightarrow> rat \<Rightarrow> string \<Rightarrow> error + compound_entry" where
  "compound_entry_for unit_data local_symbol sl_size r =
     (if \<not> (r = ''entryB'' \<or> r = ''entryC'' \<or> r = ''entryD'') then Inl AssertionError
      else
        (let offset = (if r = ''entryB'' then 1 else if r = ''entryC'' then 2 else 3);
             last_tag =
               (if r = ''entryB'' then ''entryA''
                else if r = ''entryC'' then ''entryB'' else ''entryC'');
             total_quantity = py_round (maxUnitSize (unitInfo unit_data) / 4);
             is_long = isLong (unitInfo unit_data);
             is_short = isShort (unitInfo unit_data)
         in case map_of (entryInfo unit_data) last_tag of
              None \<Rightarrow> Inl KeyError
            | Some last_entry \<Rightarrow>
                (let price_long = priceCondition last_entry + offset * sl_size;
                     price_short = - priceCondition last_entry - offset * sl_size
                 in Inr
                      \<lparr>ce_action =
                         (if truthy is_long then Some ''BUY''
                          else if truthy is_short then Some ''SELL'' else None),
                       ce_orderType = ''MKT'', ce_tif = ''GTC'',
                       ce_totalQuantity = total_quantity, ce_transmit = False,
                       ce_priceCondition =
                         (if truthy is_long then Some price_long
                          else if truthy is_short then Some price_short else None),
                       ce_orderRef = local_symbol @ r,
                       ce_isMore =
                         (if truthy is_long then Some True
                          else if truthy is_short then Some False else None),
                       ce_slPrice =
                         (if truthy is_long then Some (price_long - sl_size)
                          else if truthy is_short then Some (price_short + sl_size)
                          else None)\<rparr>)))"

fun compound_entries ::
    "unit_data \<Rightarrow> string \<Rightarrow> rat \<Rightarrow> string list \<Rightarrow> (string \<rightharpoonup> compound_entry) \<Rightarrow>
     error + (string \<rightharpoonup> compound_entry)" where
  "compound_entries unit_data local_symbol sl_size [] compound_orders = Inr compound_orders"
| "compound_entries unit_data local_symbol sl_size (r # tags) compound_orders =
     (case compound_entry_for unit_data local_symbol sl_size r of
        Inl e \<Rightarrow> Inl e
      | Inr entry \<Rightarrow>
          compound_entries unit_data local_symbol sl_size tags (compound_orders(r \<mapsto> entry)))"

definition generate_compound_entry_info ::
    "string \<Rightarrow> rat \<Rightarrow> string list \<Rightarrow> data_dict \<Rightarrow> error + (string \<rightharpoonup> compound_entry)" where
  "generate_compound_entry_info local_symbol sl_size compound_order_json_tags file =
     (case get_data_from_json file local_symbol of
        None \<Rightarrow> Inl KeyError
      | Some unit_data \<Rightarrow>
          if isLong (unitInfo unit_data) = isShort (unitInfo unit_data)
          then Inl AssertionError
          else compound_entries unit_data local_symbol sl_size compound_order_json_tags
                 Map.empty)"

subsection \<open>Steps (9) and (10) of \<^verbatim>\<open>run\<close>, lines 256-279\<close>

text \<open>
  The tags are chosen by an \<^verbatim>\<open>if\<close>/\<^verbatim>\<open>elif\<close> chain. The dictionary that
  \<^verbatim>\<open>generate_compound_entry_info\<close> returns is not used: the orders are built by
  \<^verbatim>\<open>create_unit_leg\<close> from what the file holds under each tag, and placed in that order.
\<close>

definition compound_order_json_tags :: "int \<Rightarrow> string list" where
  "compound_order_json_tags remaining =
     (if remaining \<ge> 1 then [''entryB'']
      else if remaining \<ge> 2 then [''entryC'']
      else if remaining = 3 then [''entryD'']
      else [])"

fun create_unit_legs ::
    "string list \<Rightarrow> string \<Rightarrow> nat \<Rightarrow> data_dict \<Rightarrow> order list \<Rightarrow> error + (order list \<times> nat)" where
  "create_unit_legs [] local_symbol req_id file orders = Inr (orders, req_id)"
| "create_unit_legs (t # tags) local_symbol req_id file orders =
     (case create_unit_leg t local_symbol req_id file of
        Inl e \<Rightarrow> Inl e
      | Inr (unit_leg, req_id') \<Rightarrow>
          create_unit_legs tags local_symbol req_id' file (orders @ map snd unit_leg))"

definition place_compound_orders ::
    "string \<Rightarrow> rat \<Rightarrow> int \<Rightarrow> nat \<Rightarrow> data_dict \<Rightarrow> error + (order list \<times> nat)" where
  "place_compound_orders local_symbol sl_size remaining req_id file =
     (let tags = compound_order_json_tags remaining
      in case generate_compound_entry_info local_symbol sl_size tags file of
           Inl e \<Rightarrow> Inl e
         | Inr compound_orders \<Rightarrow> create_unit_legs tags local_symbol req_id file [])"

definition short_unit :: unit_data where
  "short_unit =
     \<lparr>unitInfo =
        \<lparr>maxUnitSize = 60000, currentUnitSize = - 15000, exitAllPrice = 3 / 2,
         isLong = Flag False, isShort = Flag True,
         longEntry = blank_order_info, shortEntry = entryA_short\<rparr>,
      entryInfo =
        [(''entryA'', entryA_short), (''entryB'', blank_order_info),
         (''entryC'', blank_order_info), (''entryD'', blank_order_info)]\<rparr>"

definition short_file :: data_dict where
  "short_file = [''EUR.USD'' \<mapsto> short_unit]"

section \<open>Prices, sizing and the orders of whipsaw_0.1.py\<close>

text \<open>
  What a run reads from the venue for one instrument: the latest row of the indicator
  table, and from the account values the available funds, the currency they are in and
  the market price of the cross pair that \<^verbatim>\<open>get_base_exchange\<close> asks for.
\<close>

record indicators =
  atr :: rat
  long_dcl :: rat
  long_dcu :: rat
  short_dcl :: rat
  short_dcu :: rat

record account =
  available_funds :: rat
  base :: string
  market_price :: rat

text \<open>
  \<^verbatim>\<open>adjust_for_price_increments\<close> (0.1 lines 495-508, 0.2 lines 810-823) returns
  \<^verbatim>\<open>None\<close> for a pair it does not know. \<^verbatim>\<open>get_atr_multiple\<close> (0.1 lines 485-492)
  passes the multiple of the volatility through it.
\<close>

definition adjust_for_price_increments :: "string \<Rightarrow> rat \<Rightarrow> rat option" where
  "adjust_for_price_increments local_symbol v =
     (if local_symbol = ''EUR.USD'' then Some ((1 / 20000) * of_int (py_round (v / (1 / 20000))))
      else if local_symbol = ''GBP.JPY'' then Some ((1 / 200) * of_int (py_round (v / (1 / 200))))
      else if local_symbol = ''AUD.CAD'' then Some ((1 / 20000) * of_int (py_round (v / (1 / 20000))))
      else None)"

definition get_atr_multiple :: "string \<Rightarrow> indicators \<Rightarrow> rat \<Rightarrow> rat option" where
  "get_atr_multiple local_symbol inds multiplier =
     adjust_for_price_increments local_symbol (multiplier * atr inds)"

text \<open>\<^verbatim>\<open>s[-3:]\<close>: the last three characters, or all of a shorter string.\<close>

definition last3 :: "string \<Rightarrow> string" where
  "last3 s = drop (length s - 3) s"

text \<open>\<^verbatim>\<open>get_base_exchange\<close>, 0.1 lines 428-458 and 0.2 lines 742-772.\<close>

definition get_base_exchange :: "string \<Rightarrow> account \<Rightarrow> error + rat" where
  "get_base_exchange local_symbol acct =
     (if \<not> (local_symbol = ''GBP.JPY'' \<or> local_symbol = ''AUD.CAD'' \<or> local_symbol = ''EUR.USD'')
        then Inl AssertionError
      else if base acct = last3 local_symbol then Inr 1
      else if \<not> last3 local_symbol = ''USD''
        then (if market_price acct = 0 then Inl ZeroDivisionError
              else Inr (1 / market_price acct))
      else Inr (market_price acct))"

text \<open>
  \<^verbatim>\<open>set_position_size\<close>, 0.1 lines 461-482 and 0.2 lines 775-797. There is no test of
  \<^verbatim>\<open>sl_size\<close>: a division by a zero raises \<^verbatim>\<open>ZeroDivisionError\<close>, a division by
  \<^verbatim>\<open>None\<close> raises \<^verbatim>\<open>TypeError\<close>. In the second branch
  \<^verbatim>\<open>1 / get_base_exchange\<close> is evaluated first.
\<close>

definition set_position_size :: "string \<Rightarrow> account \<Rightarrow> rat option \<Rightarrow> error + int" where
  "set_position_size local_symbol acct sl_size =
     (let equity_at_risk = available_funds acct * (5 / 1000)
      in if base acct = last3 local_symbol
         then (case sl_size of
                 None \<Rightarrow> Inl TypeError
               | Some sl \<Rightarrow>
                   if sl = 0 then Inl ZeroDivisionError
                   else Inr (py_round (equity_at_risk / sl)))
         else (case get_base_exchange local_symbol acct of
                 Inl e \<Rightarrow> Inl e
               | Inr base_exchange \<Rightarrow>
                   if base_exchange = 0 then Inl ZeroDivisionError
                   else (case sl_size of
                           None \<Rightarrow> Inl TypeError
                         | Some sl \<Rightarrow>
                             if sl = 0 then Inl ZeroDivisionError
                             else Inr (py_round ((1 / base_exchange) * equity_at_risk / sl)))))"

text \<open>
  \<^verbatim>\<open>place_order\<close> of 0.1 (lines 731-770) has the body of \<^verbatim>\<open>create_order\<close> of 0.2.
\<close>

definition place_order ::
    "nat \<Rightarrow> string \<Rightarrow> string \<Rightarrow> string \<Rightarrow> rat \<Rightarrow> bool \<Rightarrow>
     bool option \<Rightarrow> rat option \<Rightarrow> nat option \<Rightarrow> string option \<Rightarrow> order" where
  "place_order = create_order"

subsection \<open>\<^verbatim>\<open>go_short\<close> and \<^verbatim>\<open>go_long\<close>, 0.1 lines 511-691\<close>

text \<open>
  The keyword arguments. Both defaults of \<^verbatim>\<open>kwargs.get\<close> are evaluated before the
  lookup, so \<^verbatim>\<open>set_position_size\<close> runs, and can raise, in every call. A compound order
  takes its price from \<^verbatim>\<open>last_fill_price\<close> when that is given and not zero.
\<close>

record go_kwargs =
  g_offset :: rat
  g_last_fill_price :: "rat option"
  g_is_exit_all :: bool
  g_is_compound_order :: bool
  g_sl_size :: "rat option"
  g_total_quantity :: "rat option"

definition go_defaults :: go_kwargs where
  "go_defaults =
     \<lparr>g_offset = 0, g_last_fill_price = None, g_is_exit_all = False,
      g_is_compound_order = False, g_sl_size = None, g_total_quantity = None\<rparr>"

definition is_compound :: "go_kwargs \<Rightarrow> bool" where
  "is_compound kwargs =
     (g_is_compound_order kwargs \<and>
      (case g_last_fill_price kwargs of None \<Rightarrow> False | Some p \<Rightarrow> \<not> p = 0))"

definition go_short ::
    "string \<Rightarrow> indicators \<Rightarrow> account \<Rightarrow> go_kwargs \<Rightarrow> nat \<Rightarrow> error + (order list \<times> nat)" where
  "go_short local_symbol inds acct kwargs req_id =
     (let offset = g_offset kwargs;
          sl_size =
            (case g_sl_size kwargs of
               Some v \<Rightarrow> Some v
             | None \<Rightarrow> get_atr_multiple local_symbol inds (1 / 2))
      in case set_position_size local_symbol acct sl_size of
           Inl e \<Rightarrow> Inl e
         | Inr position_size \<Rightarrow>
             (let total_quantity =
                    (case g_total_quantity kwargs of
                       Some q \<Rightarrow> q
                     | None \<Rightarrow> of_int position_size)
              in case adjust_for_price_increments local_symbol (long_dcl inds) of
                   None \<Rightarrow> Inl TypeError
                 | Some long_term_low \<Rightarrow>
              (case adjust_for_price_increments local_symbol (short_dcu inds) of
                   None \<Rightarrow> Inl TypeError
                 | Some dcu \<Rightarrow>
              (case get_atr_multiple local_symbol inds (1 / 2) of
                   None \<Rightarrow> Inl TypeError
                 | Some atr_multiple \<Rightarrow>
              (case sl_size of
                   None \<Rightarrow> Inl TypeError
                 | Some sl \<Rightarrow>
                (let short_exit_condition = dcu - offset * atr_multiple
                 in if g_is_exit_all kwargs
                    then Inr ([place_order req_id ''BUY'' ''MKT'' ''GTC'' total_quantity True
                                 (Some True) (Some short_exit_condition) None
                                 (Some (local_symbol @ ''_short_exit_all''))],
                              req_id + 1)
                    else
                      (let compound_order_ref =
                             (if is_compound kwargs then ''_compound'' else '''');
                           price_condition =
                             (case g_last_fill_price kwargs of
                                None \<Rightarrow> long_term_low
                              | Some last_fill_price \<Rightarrow>
                                  if is_compound kwargs
                                  then last_fill_price - offset * atr_multiple
                                  else long_term_low);
                           short_entry =
                             place_order req_id ''SELL'' ''MKT'' ''GTC'' total_quantity False
                               (Some False) (Some price_condition) None
                               (Some (local_symbol @ compound_order_ref @ ''_short_entry''));
                           short_sl =
                             place_order (req_id + 1) ''BUY'' ''MKT'' ''GTC'' total_quantity
                               False (Some True) (Some (price_condition + sl))
                               (Some (orderId short_entry))
                               (Some (local_symbol @ compound_order_ref @ ''_short_sl''));
                           short_exit =
                             place_order (req_id + 2) ''BUY'' ''MKT'' ''GTC'' total_quantity
                               True (Some True) (Some short_exit_condition)
                               (Some (orderId short_entry))
                               (Some (local_symbol @ compound_order_ref @ ''_short_exit''))
                       in Inr ([short_entry, short_sl, short_exit], req_id + 3))))))))"

definition go_long ::
    "string \<Rightarrow> indicators \<Rightarrow> account \<Rightarrow> go_kwargs \<Rightarrow> nat \<Rightarrow> error + (order list \<times> nat)" where
  "go_long local_symbol inds acct kwargs req_id =
     (let offset = g_offset kwargs;
          sl_size =
            (case g_sl_size kwargs of
               Some v \<Rightarrow> Some v
             | None \<Rightarrow> get_atr_multiple local_symbol inds (1 / 2))
      in case set_position_size local_symbol acct sl_size of
           Inl e \<Rightarrow> Inl e
         | Inr position_size \<Rightarrow>
             (let total_quantity =
                    (case g_total_quantity kwargs of
                       Some q \<Rightarrow> q
                     | None \<Rightarrow> of_int position_size)
              in case adjust_for_price_increments local_symbol (long_dcu inds) of
                   None \<Rightarrow> Inl TypeError
                 | Some long_term_high \<Rightarrow>
              (case adjust_for_price_increments local_symbol (short_dcl inds) of
                   None \<Rightarrow> Inl TypeError
                 | Some dcl \<Rightarrow>
              (case get_atr_multiple local_symbol inds (1 / 2) of
                   None \<Rightarrow> Inl TypeError
                 | Some atr_multiple \<Rightarrow>
              (case sl_size of
                   None \<Rightarrow> Inl TypeError
                 | Some sl \<Rightarrow>
                (let long_exit_condition = dcl + offset * atr_multiple
                 in if g_is_exit_all kwargs
                    then Inr ([place_order req_id ''SELL'' ''MKT'' ''GTC'' total_quantity True
                                 (Some False) (Some long_exit_condition) None
                                 (Some (local_symbol @ ''_long_exit_all''))],
                              req_id + 1)
                    else
                      (let compound_order_ref =
                             (if is_compound kwargs then ''_compound'' else '''');
                           price_condition =
                             (case g_last_fill_price kwargs of
                                None \<Rightarrow> long_term_high
                              | Some last_fill_price \<Rightarrow>
                                  if is_compound kwargs
                                  then last_fill_price + offset * atr_multiple
                                  else long_term_high);
                           long_entry' =
                             place_order req_id ''BUY'' ''MKT'' ''GTC'' total_quantity False
                               (Some True) (Some price_condition) None
                               (Some (local_symbol @ compound_order_ref @ ''_long_entry''));
                           long_sl =
                             place_order (req_id + 1) ''SELL'' ''MKT'' ''GTC'' total_quantity
                               False (Some False) (Some (price_condition - sl))
                               (Some (orderId long_entry'))
                               (Some (local_symbol @ compound_order_ref @ ''_long_sl''));
                           long_exit =
                             place_order (req_id + 2) ''SELL'' ''MKT'' ''GTC'' total_quantity
                               True (Some False) (Some long_exit_condition)
                               (Some (orderId long_entry'))
                               (Some (local_symbol @ compound_order_ref @ ''_long_exit''))
                       in Inr ([long_entry', long_sl, long_exit], req_id + 3))))))))"

subsection \<open>Example market data and account\<close>

definition example_indicators :: indicators where
  "example_indicators =
     \<lparr>atr = 1 / 4, long_dcl = 1, long_dcu = 3 / 2, short_dcl = 9 / 8, short_dcu = 11 / 8\<rparr>"

definition usd_account :: account where
  "usd_account = \<lparr>available_funds = 100000, base = ''USD'', market_price = 1\<rparr>"

section \<open>The run loop\<close>

text \<open>
  \<^verbatim>\<open>run\<close> of both scripts is one \<^verbatim>\<open>for\<close> loop over \<^verbatim>\<open>self.instruments\<close> with no
  \<^verbatim>\<open>try\<close> statement in it or around it, and none in the functions it calls. The body is a
  parameter: it takes an instrument and the state (the file and the venue) and returns the
  state it leaves behind, with the exception it raised, if any. An exception ends the loop.
\<close>

fun run :: "('i \<Rightarrow> 's \<Rightarrow> 's \<times> error option) \<Rightarrow> 'i list \<Rightarrow> 's \<Rightarrow> 's \<times> error option" where
  "run body [] s = (s, None)"
| "run body (instrument # instruments) s =
     (case body instrument s of
        (s', Some e) \<Rightarrow> (s', Some e)
      | (s', None) \<Rightarrow> run body instruments s')"

text \<open>
  The body of the loop in whipsaw_0.2.py, lines 51-279, for one instrument. What the body
  reads from the venue for the instrument is an input: the latest indicator row, the
  account values, the maximum equity at risk that \<^verbatim>\<open>get_max_equity_at_risk\<close> returns
  and the cash balance that \<^verbatim>\<open>get_cash_balance\<close> returns. The state is the file, the
  orders open at the venue with the symbol they were placed for, the one-cancels-all
  groups formed, and the next request identifier.
\<close>

record reading =
  r_symbol :: string
  r_indicators :: indicators
  r_account :: account
  r_max_equity_at_risk :: rat
  r_cash_balance :: rat

text \<open>
  \<^verbatim>\<open>oneCancelsAll\<close> puts the group name and type on the orders it is given. The group
  is kept beside the orders here: the symbol and the request identifier that make up the
  name \<^verbatim>\<open>"OCA_" + symbol + str(getReqId())\<close>, the type, and the identifiers of the
  member orders.
\<close>

record oca_group =
  oca_symbol :: string
  oca_req_id :: nat
  oca_type :: nat
  oca_members :: "nat list"

record venue =
  json_file :: data_dict
  open_orders :: "(string \<times> order) list"
  oca_groups :: "oca_group list"
  next_id :: nat

text \<open>
  \<^verbatim>\<open>generate_initial_entry_info\<close>, lines 352-400: the long entry at the upper and the
  short entry at the lower long channel, each with its stop one stop size away, both with
  the quantity from \<^verbatim>\<open>set_position_size\<close>.
\<close>

definition generate_initial_entry_info ::
    "string \<Rightarrow> indicators \<Rightarrow> account \<Rightarrow> error + (order_info \<times> order_info)" where
  "generate_initial_entry_info local_symbol inds acct =
     (let sl_size = get_atr_multiple local_symbol inds (1 / 2)
      in case set_position_size local_symbol acct sl_size of
           Inl e \<Rightarrow> Inl e
         | Inr total_quantity \<Rightarrow>
             (case adjust_for_price_increments local_symbol (long_dcu inds) of
                None \<Rightarrow> Inl TypeError
              | Some long_price_condition \<Rightarrow>
             (case adjust_for_price_increments local_symbol (long_dcl inds) of
                None \<Rightarrow> Inl TypeError
              | Some short_price_condition \<Rightarrow>
             (case sl_size of
                None \<Rightarrow> Inl TypeError
              | Some sl \<Rightarrow>
                  Inr (\<lparr>action = ''BUY'', orderType = ''MKT'', tif = ''GTC'',
                        totalQuantity = of_int total_quantity, transmit = False,
                        priceCondition = long_price_condition,
                        orderRef = local_symbol @ ''entryA'', isMore = True,
                        slPrice = long_price_condition - sl\<rparr>,
                       \<lparr>action = ''SELL'', orderType = ''MKT'', tif = ''GTC'',
                        totalQuantity = of_int total_quantity, transmit = False,
                        priceCondition = short_price_condition,
                        orderRef = local_symbol @ ''entryA'', isMore = False,
                        slPrice = short_price_condition + sl\<rparr>)))))"

text \<open>
  \<^verbatim>\<open>create_initial_entry_orders\<close>, lines 556-580: the two unit legs from the file, the
  two entries in one group of type 1, and the six orders in the order they are placed.
\<close>

definition create_initial_entry_orders ::
    "string \<Rightarrow> nat \<Rightarrow> data_dict \<Rightarrow> error + (order list \<times> oca_group \<times> nat)" where
  "create_initial_entry_orders local_symbol req_id file =
     (case create_unit_leg ''longEntry'' local_symbol req_id file of
        Inl e \<Rightarrow> Inl e
      | Inr (long_entry_attempts, req_id1) \<Rightarrow>
          (case create_unit_leg ''shortEntry'' local_symbol req_id1 file of
             Inl e \<Rightarrow> Inl e
           | Inr (short_entry_attempts, req_id2) \<Rightarrow>
               (case map_of long_entry_attempts ''entry_order'' of
                  None \<Rightarrow> Inl KeyError
                | Some long_entry_order \<Rightarrow>
               (case map_of short_entry_attempts ''entry_order'' of
                  None \<Rightarrow> Inl KeyError
                | Some short_entry_order \<Rightarrow>
                    Inr (map snd long_entry_attempts @ map snd short_entry_attempts,
                         \<lparr>oca_symbol = local_symbol, oca_req_id = req_id2, oca_type = 1,
                          oca_members = [orderId long_entry_order, orderId short_entry_order]\<rparr>,
                         req_id2 + 1)))))"

text \<open>
  The branch for an instrument without an open unit, lines 82-118: the entry data is
  cleared, the open orders of the instrument are cancelled, the new initial entries are
  stored with the unit sizes, and the six initial orders are created and placed.
\<close>

definition flat_branch ::
    "string \<Rightarrow> indicators \<Rightarrow> account \<Rightarrow> rat \<Rightarrow> rat \<Rightarrow> venue \<Rightarrow> venue \<times> error option" where
  "flat_branch local_symbol inds acct max_size current_size v =
     (case clear_orders_from_json local_symbol all_order_names (json_file v) of
        Inl e \<Rightarrow> (v, Some e)
      | Inr file1 \<Rightarrow>
          (let v1 = v\<lparr>json_file := file1,
                      open_orders := filter (\<lambda>t. \<not> fst t = local_symbol) (open_orders v)\<rparr>
           in case generate_initial_entry_info local_symbol inds acct of
                Inl e \<Rightarrow> (v1, Some e)
              | Inr (long_entry', short_entry') \<Rightarrow>
                  (case save_unit_info_to_json local_symbol
                          (no_kwargs\<lparr>max_unit_size := Some max_size,
                             current_unit_size := Some current_size,
                             long_entry := Some long_entry',
                             short_entry := Some short_entry'\<rparr>) (json_file v1) of
                     Inl e \<Rightarrow> (v1, Some e)
                   | Inr file2 \<Rightarrow>
                       (let v2 = v1\<lparr>json_file := file2\<rparr>
                        in case create_initial_entry_orders local_symbol (next_id v2) file2 of
                             Inl e \<Rightarrow> (v2, Some e)
                           | Inr (orders, oca, req_id) \<Rightarrow>
                               (v2\<lparr>open_orders :=
                                     open_orders v2 @ map (Pair local_symbol) orders,
                                   oca_groups := oca_groups v2 @ [oca],
                                   next_id := req_id\<rparr>, None)))))"

text \<open>
  The branch for a unit that is not full, lines 120-181. The exit price is stored with the
  live size and the flags (line 148). When the stored first entry has quantity 0, line 159
  reads \<^verbatim>\<open>unit_data["longEntry"]\<close> (or \<^verbatim>\<open>"shortEntry"\<close>), a key that the record of
  an instrument does not have, the entries being kept inside \<^verbatim>\<open>unitInfo\<close>. Otherwise
  line 179 is reached: it calls \<^verbatim>\<open>self.get_open_trades()\<close> without the instrument
  that the method requires, which raises \<^verbatim>\<open>TypeError\<close>. So every pass through this
  branch ends in an exception, and the statements after line 179 (steps (7) to (10),
  embedded above as \<open>remaining_orders\<close> and \<open>place_compound_orders\<close>) are not reached
  from the loop.
\<close>

definition not_full_branch ::
    "string \<Rightarrow> indicators \<Rightarrow> rat \<Rightarrow> bool \<Rightarrow> bool \<Rightarrow> venue \<Rightarrow> venue \<times> error option" where
  "not_full_branch local_symbol inds current_size long_flag short_flag v =
     (case (if long_flag then adjust_for_price_increments local_symbol (short_dcl inds)
            else if short_flag then adjust_for_price_increments local_symbol (short_dcu inds)
            else None) of
        None \<Rightarrow> (v, Some AssertionError)
      | Some exit_price \<Rightarrow>
          (case save_unit_info_to_json local_symbol
                  (no_kwargs\<lparr>current_unit_size := Some current_size,
                     is_short := Some short_flag, is_long := Some long_flag,
                     exit_all_price := Some exit_price\<rparr>) (json_file v) of
             Inl e \<Rightarrow> (v, Some e)
           | Inr file1 \<Rightarrow>
               (let v1 = v\<lparr>json_file := file1\<rparr>
                in case get_data_from_json file1 local_symbol of
                     None \<Rightarrow> (v1, Some KeyError)
                   | Some unit_data \<Rightarrow>
                       (case map_of (entryInfo unit_data) ''entryA'' of
                          None \<Rightarrow> (v1, Some KeyError)
                        | Some entry_a \<Rightarrow>
                            if totalQuantity entry_a = 0 then (v1, Some KeyError)
                            else (v1, Some TypeError)))))"

text \<open>
  The body, lines 51-279: the set-up of lines 56-77, then the branch for no open unit, the
  branch for a unit that is not full, or nothing for a full unit.
\<close>

definition run_body :: "reading \<Rightarrow> venue \<Rightarrow> venue \<times> error option" where
  "run_body r v =
     (case get_base_exchange (r_symbol r) (r_account r) of
        Inl e \<Rightarrow> (v, Some e)
      | Inr base_exchange \<Rightarrow>
          (case get_atr_multiple (r_symbol r) (r_indicators r) (1 / 2) of
             None \<Rightarrow> (v, Some TypeError)
           | Some sl_size \<Rightarrow>
               if sl_size * base_exchange = 0 then (v, Some ZeroDivisionError)
               else
                 (let max_size = r_max_equity_at_risk r / (sl_size * base_exchange);
                      current_size = r_cash_balance r * base_exchange;
                      long_flag = (current_size > 100);
                      short_flag = (current_size < - 100);
                      unit_full =
                        (\<not> (\<bar>current_size\<bar> < \<bar>max_size\<bar> \<and> (long_flag \<or> short_flag)))
                  in if \<not> long_flag \<and> \<not> short_flag
                     then flat_branch (r_symbol r) (r_indicators r) (r_account r) max_size
                            current_size v
                     else if \<not> unit_full
                     then not_full_branch (r_symbol r) (r_indicators r) current_size
                            long_flag short_flag v
                     else (v, None))))"

subsection \<open>Example batch\<close>

text \<open>
  A short unit of 15000 in EUR.USD, below its maximum of 16000, and no position in
  GBP.JPY; the account is in USD with available funds of 100000.
\<close>

definition batch_file :: data_dict where
  "batch_file = [''EUR.USD'' \<mapsto> short_unit, ''GBP.JPY'' \<mapsto> flat_unit]"

definition batch_venue :: venue where
  "batch_venue = \<lparr>json_file = batch_file, open_orders = [], oca_groups = [], next_id = 1\<rparr>"

definition eur_reading :: reading where
  "eur_reading =
     \<lparr>r_symbol = ''EUR.USD'', r_indicators = example_indicators, r_account = usd_account,
      r_max_equity_at_risk = 2000, r_cash_balance = - 15000\<rparr>"

definition gbp_reading :: reading where
  "gbp_reading =
     \<lparr>r_symbol = ''GBP.JPY'',
      r_indicators =
        \<lparr>atr = 2, long_dcl = 140, long_dcu = 150, short_dcl = 142, short_dcu = 148\<rparr>,
      r_account = \<lparr>available_funds = 100000, base = ''USD'', market_price = 128\<rparr>,
      r_max_equity_at_risk = 2000, r_cash_balance = 0\<rparr>"

definition jpy_account :: account where
  "jpy_account = \<lparr>available_funds = 1000000, base = ''JPY'', market_price = 1 / 128\<rparr>"

section \<open>Properties\<close>

lemma py_round_of_int [simp]: "py_round (of_int n) = n"
  by (simp add: py_round_def)

lemma py_round_numeral [simp]: "py_round (numeral k) = numeral k"
  using py_round_of_int [of "numeral k"] by simp

lemma py_round_neg_numeral [simp]: "py_round (- numeral k) = - numeral k"
  using py_round_of_int [of "- numeral k"] by simp

lemma py_round_zero [simp]: "py_round 0 = 0"
  using py_round_of_int [of 0] by simp

lemma py_round_one [simp]: "py_round 1 = 1"
  using py_round_of_int [of 1] by simp

text \<open>
  C5. For every live exposure, the classification is flat when the magnitude is at most 100,
  long when the exposure is above 100 and short when it is below -100; 150 is long, 50 is
  flat, and exactly 100 and exactly -100 are flat.
\<close>

theorem classify_bands:
  "(\<bar>x\<bar> \<le> 100 \<longrightarrow> classify x = Flat) \<and>
   (100 < x \<longrightarrow> classify x = Long) \<and>
   (x < - 100 \<longrightarrow> classify x = Short) \<and>
   classify 150 = Long \<and> classify 50 = Flat \<and>
   classify 100 = Flat \<and> classify (- 100) = Flat"
  by (auto simp: classify_def)

theorem classify_bands_witness:
  "\<bar>20 :: rat\<bar> \<le> 100 \<and> classify 20 = Flat \<and>
   (100 :: rat) < 15000 \<and> classify 15000 = Long \<and>
   (- 15000 :: rat) < - 100 \<and> classify (- 15000) = Short"
  using classify_bands [of 20] classify_bands [of 15000] classify_bands [of "- 15000"]
  by simp

text \<open>
  C1, as the code has it. For every pair of sizes the computation of the remaining orders
  never returns a value outside 1..3 (so never one outside 0..4). When the maximum unit
  size is not zero it either returns such a value or fails one of its two range
  assertions.
\<close>

theorem remaining_orders_range:
  "(\<forall>n. remaining_orders m c = Inr n \<longrightarrow> 1 \<le> n \<and> n \<le> 3 \<and> 0 \<le> n \<and> n \<le> 4) \<and>
   (m \<noteq> 0 \<longrightarrow>
      (\<exists>n. remaining_orders m c = Inr n \<and> 1 \<le> n \<and> n \<le> 3) \<or>
      remaining_orders m c = Inl AssertionError)"
  by (auto simp: remaining_orders_def Let_def split: if_splits)

theorem remaining_orders_range_witness:
  "(40000 :: rat) \<noteq> 0 \<and> remaining_orders 40000 10000 = Inr 3 \<and>
   (1 :: int) \<le> 3 \<and> (3 :: int) \<le> 3 \<and> (0 :: int) \<le> 3 \<and> (3 :: int) \<le> 4"
  using remaining_orders_range [of 40000 10000]
  by (simp add: remaining_orders_def)

text \<open>
  With a maximum unit size of zero the computation neither returns a value nor fails an
  assertion: the division raises first.
\<close>

theorem remaining_orders_zero_max:
  "\<not> ((\<exists>n. remaining_orders 0 0 = Inr n \<and> 0 \<le> n \<and> n \<le> 4) \<or>
      remaining_orders 0 0 = Inl AssertionError)"
  by (simp add: remaining_orders_def)

lemma remaining_orders_long_agrees:
  "0 \<le> c \<Longrightarrow> remaining_orders m c = Inr n \<Longrightarrow> n = spec_remainingTranches m c"
  by (auto simp: remaining_orders_def spec_remainingTranches_def Let_def split: if_splits)

text \<open>
  C2. The specification's formula subtracts the magnitude of the current unit size; the code
  subtracts the signed value. For the long unit of the example (maximum 40000, current
  10000) both give 3. For the short unit of the same magnitude the specification's formula
  gives 3 again, while the code computes 5 and fails its assertion.
\<close>

theorem remaining_orders_short_unit:
  "remaining_orders 40000 10000 = Inr 3 \<and>
   spec_remainingTranches 40000 10000 = 3 \<and>
   spec_remainingTranches 40000 (- 10000) = 3 \<and>
   py_round ((40000 - (- 10000)) / (40000 / 4)) = 5 \<and>
   remaining_orders 40000 (- 10000) = Inl AssertionError"
  by (simp add: remaining_orders_def spec_remainingTranches_def)

subsection \<open>The unit-info mutator\<close>

lemmas store_defs = store_max_unit_size_def store_current_unit_size_def
  store_exit_all_price_def store_is_long_def store_is_short_def store_long_entry_def
  store_short_entry_def

lemma maxUnitSize_store [simp]:
  "maxUnitSize (store_max_unit_size v ui) =
     (case v of Some x \<Rightarrow> if x = 0 then maxUnitSize ui else x | None \<Rightarrow> maxUnitSize ui)"
  "maxUnitSize (store_current_unit_size v ui) = maxUnitSize ui"
  "maxUnitSize (store_exit_all_price v ui) = maxUnitSize ui"
  "maxUnitSize (store_is_long b ui) = maxUnitSize ui"
  "maxUnitSize (store_is_short b ui) = maxUnitSize ui"
  "maxUnitSize (store_long_entry e ui) = maxUnitSize ui"
  "maxUnitSize (store_short_entry e ui) = maxUnitSize ui"
  by (simp_all add: store_defs split: option.splits)

lemma currentUnitSize_store [simp]:
  "currentUnitSize (store_max_unit_size v ui) = currentUnitSize ui"
  "currentUnitSize (store_current_unit_size v ui) =
     (case v of Some x \<Rightarrow> if x = 0 then currentUnitSize ui else x
      | None \<Rightarrow> currentUnitSize ui)"
  "currentUnitSize (store_exit_all_price v ui) = currentUnitSize ui"
  "currentUnitSize (store_is_long b ui) = currentUnitSize ui"
  "currentUnitSize (store_is_short b ui) = currentUnitSize ui"
  "currentUnitSize (store_long_entry e ui) = currentUnitSize ui"
  "currentUnitSize (store_short_entry e ui) = currentUnitSize ui"
  by (simp_all add: store_defs split: option.splits)

lemma exitAllPrice_store [simp]:
  "exitAllPrice (store_max_unit_size v ui) = exitAllPrice ui"
  "exitAllPrice (store_current_unit_size v ui) = exitAllPrice ui"
  "exitAllPrice (store_exit_all_price v ui) =
     (case v of Some x \<Rightarrow> if x = 0 then exitAllPrice ui else x | None \<Rightarrow> exitAllPrice ui)"
  "exitAllPrice (store_is_long b ui) = exitAllPrice ui"
  "exitAllPrice (store_is_short b ui) = exitAllPrice ui"
  "exitAllPrice (store_long_entry e ui) = exitAllPrice ui"
  "exitAllPrice (store_short_entry e ui) = exitAllPrice ui"
  by (simp_all add: store_defs split: option.splits)

lemma isLong_store [simp]:
  "isLong (store_max_unit_size v ui) = isLong ui"
  "isLong (store_current_unit_size v ui) = isLong ui"
  "isLong (store_exit_all_price v ui) = isLong ui"
  "isLong (store_is_long b ui) =
     (case b of Some x \<Rightarrow> if x then Flag True else isLong ui | None \<Rightarrow> isLong ui)"
  "isLong (store_is_short b ui) = isLong ui"
  "isLong (store_long_entry e ui) = isLong ui"
  "isLong (store_short_entry e ui) = isLong ui"
  by (simp_all add: store_defs split: option.splits)

lemma isShort_store [simp]:
  "isShort (store_max_unit_size v ui) = isShort ui"
  "isShort (store_current_unit_size v ui) = isShort ui"
  "isShort (store_exit_all_price v ui) = isShort ui"
  "isShort (store_is_long b ui) = isShort ui"
  "isShort (store_is_short b ui) =
     (case b of Some x \<Rightarrow> if x then Flag True else isShort ui | None \<Rightarrow> isShort ui)"
  "isShort (store_long_entry e ui) = isShort ui"
  "isShort (store_short_entry e ui) = isShort ui"
  by (simp_all add: store_defs split: option.splits)

lemma longEntry_store [simp]:
  "longEntry (store_max_unit_size v ui) = longEntry ui"
  "longEntry (store_current_unit_size v ui) = longEntry ui"
  "longEntry (store_exit_all_price v ui) = longEntry ui"
  "longEntry (store_is_long b ui) = longEntry ui"
  "longEntry (store_is_short b ui) = longEntry ui"
  "longEntry (store_long_entry e ui) = (case e of Some x \<Rightarrow> x | None \<Rightarrow> longEntry ui)"
  "longEntry (store_short_entry e ui) = longEntry ui"
  by (simp_all add: store_defs split: option.splits)

lemma shortEntry_store [simp]:
  "shortEntry (store_max_unit_size v ui) = shortEntry ui"
  "shortEntry (store_current_unit_size v ui) = shortEntry ui"
  "shortEntry (store_exit_all_price v ui) = shortEntry ui"
  "shortEntry (store_is_long b ui) = shortEntry ui"
  "shortEntry (store_is_short b ui) = shortEntry ui"
  "shortEntry (store_long_entry e ui) = shortEntry ui"
  "shortEntry (store_short_entry e ui) = (case e of Some x \<Rightarrow> x | None \<Rightarrow> shortEntry ui)"
  by (simp_all add: store_defs split: option.splits)

lemma save_unit_info_to_json_result:
  "file s = Some ud \<Longrightarrow>
   save_unit_info_to_json s kw file =
     Inr (file(s \<mapsto> ud\<lparr>unitInfo := stored_unit_info kw (unitInfo ud)\<rparr>))"
  by (simp add: save_unit_info_to_json_def get_data_from_json_def save_data_to_json_def
      stored_unit_info_def Let_def)

lemma save_unit_info_to_json_missing:
  "file s = None \<Longrightarrow> save_unit_info_to_json s kw file = Inl KeyError"
  by (simp add: save_unit_info_to_json_def get_data_from_json_def)

text \<open>
  C10. A call of the unit-info mutator on a stored record writes back the same record with
  a new \<^verbatim>\<open>unitInfo\<close> object: the entry data of the instrument and the records of every
  other instrument are as before. A field whose argument is left out, is 0 (the three
  numbers) or is False (the two flags) keeps its stored value. So a stored current unit
  size of 0, or a stored flag that is False, was already there before the call.
\<close>

theorem save_unit_info_to_json_truthy_only:
  assumes "file s = Some ud"
  shows "\<exists>ui'. save_unit_info_to_json s kw file = Inr (file(s \<mapsto> ud\<lparr>unitInfo := ui'\<rparr>)) \<and>
     (max_unit_size kw = None \<or> max_unit_size kw = Some 0 \<longrightarrow>
        maxUnitSize ui' = maxUnitSize (unitInfo ud)) \<and>
     (current_unit_size kw = None \<or> current_unit_size kw = Some 0 \<longrightarrow>
        currentUnitSize ui' = currentUnitSize (unitInfo ud)) \<and>
     (exit_all_price kw = None \<or> exit_all_price kw = Some 0 \<longrightarrow>
        exitAllPrice ui' = exitAllPrice (unitInfo ud)) \<and>
     (is_long kw = None \<or> is_long kw = Some False \<longrightarrow> isLong ui' = isLong (unitInfo ud)) \<and>
     (is_short kw = None \<or> is_short kw = Some False \<longrightarrow>
        isShort ui' = isShort (unitInfo ud)) \<and>
     (long_entry kw = None \<longrightarrow> longEntry ui' = longEntry (unitInfo ud)) \<and>
     (short_entry kw = None \<longrightarrow> shortEntry ui' = shortEntry (unitInfo ud)) \<and>
     (currentUnitSize ui' = 0 \<longrightarrow> currentUnitSize (unitInfo ud) = 0) \<and>
     (isLong ui' = Flag False \<longrightarrow> isLong (unitInfo ud) = Flag False) \<and>
     (isShort ui' = Flag False \<longrightarrow> isShort (unitInfo ud) = Flag False)"
proof -
  let ?ui = "stored_unit_info kw (unitInfo ud)"
  have r: "save_unit_info_to_json s kw file = Inr (file(s \<mapsto> ud\<lparr>unitInfo := ?ui\<rparr>))"
    using assms by (rule save_unit_info_to_json_result)
  have a: "max_unit_size kw = None \<or> max_unit_size kw = Some 0 \<longrightarrow>
      maxUnitSize ?ui = maxUnitSize (unitInfo ud)"
    by (auto simp: stored_unit_info_def)
  have b: "current_unit_size kw = None \<or> current_unit_size kw = Some 0 \<longrightarrow>
      currentUnitSize ?ui = currentUnitSize (unitInfo ud)"
    by (auto simp: stored_unit_info_def)
  have c: "exit_all_price kw = None \<or> exit_all_price kw = Some 0 \<longrightarrow>
      exitAllPrice ?ui = exitAllPrice (unitInfo ud)"
    by (auto simp: stored_unit_info_def)
  have d: "is_long kw = None \<or> is_long kw = Some False \<longrightarrow> isLong ?ui = isLong (unitInfo ud)"
    by (auto simp: stored_unit_info_def)
  have e: "is_short kw = None \<or> is_short kw = Some False \<longrightarrow>
      isShort ?ui = isShort (unitInfo ud)"
    by (auto simp: stored_unit_info_def)
  have f: "long_entry kw = None \<longrightarrow> longEntry ?ui = longEntry (unitInfo ud)"
    by (auto simp: stored_unit_info_def)
  have g: "short_entry kw = None \<longrightarrow> shortEntry ?ui = shortEntry (unitInfo ud)"
    by (auto simp: stored_unit_info_def)
  have h: "currentUnitSize ?ui = 0 \<longrightarrow> currentUnitSize (unitInfo ud) = 0"
    by (auto simp: stored_unit_info_def split: option.splits if_splits)
  have i: "isLong ?ui = Flag False \<longrightarrow> isLong (unitInfo ud) = Flag False"
    by (auto simp: stored_unit_info_def split: option.splits if_splits)
  have j: "isShort ?ui = Flag False \<longrightarrow> isShort (unitInfo ud) = Flag False"
    by (auto simp: stored_unit_info_def split: option.splits if_splits)
  show ?thesis
    by (rule exI [of _ ?ui]) (intro conjI r a b c d e f g h i j)
qed

lemma example_file_eur [simp]: "example_file ''EUR.USD'' = Some long_unit"
  by (simp add: example_file_def)
lemma example_file_gbp [simp]: "example_file ''GBP.JPY'' = Some flat_unit"
  by (simp add: example_file_def)

lemma falsy_kwargs_fields [simp]:
  "max_unit_size falsy_kwargs = None" "current_unit_size falsy_kwargs = Some 0"
  "exit_all_price falsy_kwargs = Some 0" "is_long falsy_kwargs = Some False"
  "is_short falsy_kwargs = Some False"
  "long_entry falsy_kwargs = None" "short_entry falsy_kwargs = None"
  by (simp_all add: falsy_kwargs_def no_kwargs_def)

theorem save_unit_info_to_json_truthy_only_witness:
  "example_file ''EUR.USD'' = Some long_unit \<and>
   max_unit_size falsy_kwargs = None \<and> current_unit_size falsy_kwargs = Some 0 \<and>
   exit_all_price falsy_kwargs = Some 0 \<and> is_long falsy_kwargs = Some False \<and>
   is_short falsy_kwargs = Some False \<and> long_entry falsy_kwargs = None \<and>
   short_entry falsy_kwargs = None \<and>
   save_unit_info_to_json ''EUR.USD'' falsy_kwargs example_file = Inr example_file \<and>
   example_file ''GBP.JPY'' = Some flat_unit \<and>
   currentUnitSize (unitInfo flat_unit) = 0 \<and> isLong (unitInfo flat_unit) = Flag False \<and>
   isShort (unitInfo flat_unit) = Flag False \<and>
   save_unit_info_to_json ''GBP.JPY'' falsy_kwargs example_file = Inr example_file"
proof -
  have h1: "example_file ''EUR.USD'' = Some long_unit" by simp
  have h2: "example_file ''GBP.JPY'' = Some flat_unit" by simp
  from save_unit_info_to_json_truthy_only [of example_file "''EUR.USD''" long_unit falsy_kwargs, OF h1]
  obtain u1 where s1: "save_unit_info_to_json ''EUR.USD'' falsy_kwargs example_file =
        Inr (example_file(''EUR.USD'' \<mapsto> long_unit\<lparr>unitInfo := u1\<rparr>))"
    and "maxUnitSize u1 = maxUnitSize (unitInfo long_unit)"
    and "currentUnitSize u1 = currentUnitSize (unitInfo long_unit)"
    and "exitAllPrice u1 = exitAllPrice (unitInfo long_unit)"
    and "isLong u1 = isLong (unitInfo long_unit)"
    and "isShort u1 = isShort (unitInfo long_unit)"
    and "longEntry u1 = longEntry (unitInfo long_unit)"
    and "shortEntry u1 = shortEntry (unitInfo long_unit)"
    by auto
  then have "u1 = unitInfo long_unit" by simp
  with s1 have r1:
    "save_unit_info_to_json ''EUR.USD'' falsy_kwargs example_file = Inr example_file"
    using h1 by (simp add: fun_upd_idem)
  from save_unit_info_to_json_truthy_only [of example_file "''GBP.JPY''" flat_unit falsy_kwargs, OF h2]
  obtain u2 where s2: "save_unit_info_to_json ''GBP.JPY'' falsy_kwargs example_file =
        Inr (example_file(''GBP.JPY'' \<mapsto> flat_unit\<lparr>unitInfo := u2\<rparr>))"
    and "maxUnitSize u2 = maxUnitSize (unitInfo flat_unit)"
    and "currentUnitSize u2 = currentUnitSize (unitInfo flat_unit)"
    and "exitAllPrice u2 = exitAllPrice (unitInfo flat_unit)"
    and "isLong u2 = isLong (unitInfo flat_unit)"
    and "isShort u2 = isShort (unitInfo flat_unit)"
    and "longEntry u2 = longEntry (unitInfo flat_unit)"
    and "shortEntry u2 = shortEntry (unitInfo flat_unit)"
    by auto
  then have "u2 = unitInfo flat_unit" by simp
  with s2 have r2:
    "save_unit_info_to_json ''GBP.JPY'' falsy_kwargs example_file = Inr example_file"
    using h2 by (simp add: fun_upd_idem)
  show ?thesis using r1 r2 by (simp add: flat_unit_def)
qed

subsection \<open>Clearing the record\<close>

lemma clear_keys_same: "clear_keys d n ks d = d"
  by (induction ks) (simp_all add: save_data_to_json_def)

lemma clear_names_same: "d s = Some ud \<Longrightarrow> clear_names d s ns d = Inr d"
  by (induction ns) (simp_all add: clear_keys_same split: option.splits)

lemma clear_orders_from_json_same:
  "file s = Some ud \<Longrightarrow> clear_orders_from_json s ns file = Inr file"
  by (simp add: clear_orders_from_json_def get_data_from_json_def clear_names_same)

text \<open>
  C8. The stored record of a long unit of 15000, and a live exposure that has come back to
  20, which classifies as flat. \<^verbatim>\<open>clear_orders_from_json\<close> returns with the file as it
  was: no tranche field is blanked. The call of the unit-info mutator that follows in the
  flat branch of \<^verbatim>\<open>run\<close> (lines 101-105: maximum unit size, current unit size and
  the two new initial entries) stores 20 as the current unit size and leaves
  \<^verbatim>\<open>isLong\<close> true and the entry data as they were.
\<close>

theorem clear_orders_from_json_keeps_record:
  "classify 15000 = Long \<and> classify 20 = Flat \<and>
   clear_orders_from_json ''EUR.USD'' all_order_names example_file = Inr example_file \<and>
   example_file ''EUR.USD'' = Some long_unit \<and>
   isLong (unitInfo long_unit) = Flag True \<and>
   currentUnitSize (unitInfo long_unit) = 15000 \<and>
   map_of (entryInfo long_unit) ''entryA'' = Some entryA_long \<and>
   totalQuantity entryA_long = 15000 \<and>
   save_unit_info_to_json ''EUR.USD''
       (no_kwargs\<lparr>max_unit_size := Some 80000, current_unit_size := Some 20,
          long_entry := Some le, short_entry := Some se\<rparr>) example_file =
     Inr (example_file(''EUR.USD'' \<mapsto>
       long_unit\<lparr>unitInfo := (unitInfo long_unit)\<lparr>maxUnitSize := 80000, currentUnitSize := 20,
          longEntry := le, shortEntry := se\<rparr>\<rparr>))"
  by (simp add: classify_def clear_orders_from_json_same save_unit_info_to_json_result
     stored_unit_info_def store_defs no_kwargs_def long_unit_def entryA_long_def)

subsection \<open>Position sizing\<close>

text \<open>
  C6, as the code has it. \<^verbatim>\<open>set_position_size\<close> has no guard on the stop distance. With a
  stop distance of zero the division itself raises \<^verbatim>\<open>ZeroDivisionError\<close>; with any
  other stop distance, negative ones included, the division is performed and the rounded
  quotient is returned. The first two parts are for an account whose base currency is the
  quote currency of the pair, the last two for another base currency, with the exchange
  rate \<open>fx\<close> that \<^verbatim>\<open>get_base_exchange\<close> returns.
\<close>

theorem set_position_size_unguarded:
  "(base acct = last3 s \<and> sl = 0 \<longrightarrow>
      set_position_size s acct (Some sl) = Inl ZeroDivisionError) \<and>
   (base acct = last3 s \<and> sl \<noteq> 0 \<longrightarrow>
      set_position_size s acct (Some sl) =
        Inr (py_round (available_funds acct * (5 / 1000) / sl))) \<and>
   (base acct \<noteq> last3 s \<and> get_base_exchange s acct = Inr fx \<and> fx \<noteq> 0 \<and> sl = 0 \<longrightarrow>
      set_position_size s acct (Some sl) = Inl ZeroDivisionError) \<and>
   (base acct \<noteq> last3 s \<and> get_base_exchange s acct = Inr fx \<and> fx \<noteq> 0 \<and> sl \<noteq> 0 \<longrightarrow>
      set_position_size s acct (Some sl) =
        Inr (py_round (1 / fx * (available_funds acct * (5 / 1000)) / sl)))"
  by (simp add: set_position_size_def ac_simps)

theorem set_position_size_unguarded_witness:
  "base usd_account = last3 ''EUR.USD'' \<and>
   set_position_size ''EUR.USD'' usd_account (Some 0) = Inl ZeroDivisionError \<and>
   (- 1 :: rat) \<noteq> 0 \<and>
   set_position_size ''EUR.USD'' usd_account (Some (- 1)) = Inr (- 500) \<and>
   base jpy_account \<noteq> last3 ''EUR.USD'' \<and>
   get_base_exchange ''EUR.USD'' jpy_account = Inr (1 / 128) \<and>
   (1 / 128 :: rat) \<noteq> 0 \<and>
   set_position_size ''EUR.USD'' jpy_account (Some 0) = Inl ZeroDivisionError \<and>
   (- (1 / 8) :: rat) \<noteq> 0 \<and>
   set_position_size ''EUR.USD'' jpy_account (Some (- (1 / 8))) = Inr (- 5120000)"
  using set_position_size_unguarded [of usd_account "''EUR.USD''" 0 1]
    set_position_size_unguarded [of usd_account "''EUR.USD''" "- 1" 1]
    set_position_size_unguarded [of jpy_account "''EUR.USD''" 0 "1 / 128"]
    set_position_size_unguarded [of jpy_account "''EUR.USD''" "- (1 / 8)" "1 / 128"]
  by (simp add: usd_account_def jpy_account_def last3_def get_base_exchange_def)

text \<open>
  With a stop distance of -1 the sizing does not fail: it returns -500. With a stop
  distance of 0 the division by zero is reached.
\<close>

theorem set_position_size_negative_stop:
  "set_position_size ''EUR.USD'' usd_account (Some (- 1)) = Inr (- 500) \<and>
   set_position_size ''EUR.USD'' usd_account (Some 0) = Inl ZeroDivisionError"
  by (simp add: set_position_size_def usd_account_def last3_def)

subsection \<open>Compound orders\<close>

lemma compound_order_json_tags_entryB:
  "1 \<le> r \<Longrightarrow> compound_order_json_tags r = [''entryB'']"
  by (simp add: compound_order_json_tags_def)

lemma generate_compound_entry_info_long:
  "generate_compound_entry_info ''EUR.USD'' (1 / 8) [''entryB''] example_file =
     Inr [''entryB'' \<mapsto>
       \<lparr>ce_action = Some ''BUY'', ce_orderType = ''MKT'', ce_tif = ''GTC'',
        ce_totalQuantity = 15000, ce_transmit = False, ce_priceCondition = Some (11 / 8),
        ce_orderRef = ''EUR.USDentryB'', ce_isMore = Some True,
        ce_slPrice = Some (5 / 4)\<rparr>]"
  by (simp add: generate_compound_entry_info_def get_data_from_json_def long_unit_def
      compound_entry_for_def truthy_def entryA_long_def)

lemma generate_compound_entry_info_short:
  "generate_compound_entry_info ''EUR.USD'' (1 / 8) [''entryB''] short_file =
     Inr [''entryB'' \<mapsto>
       \<lparr>ce_action = Some ''SELL'', ce_orderType = ''MKT'', ce_tif = ''GTC'',
        ce_totalQuantity = 15000, ce_transmit = False,
        ce_priceCondition = Some (- (11 / 8)), ce_orderRef = ''EUR.USDentryB'',
        ce_isMore = Some False, ce_slPrice = Some (- (5 / 4))\<rparr>]"
  by (simp add: generate_compound_entry_info_def get_data_from_json_def short_unit_def
      short_file_def compound_entry_for_def truthy_def entryA_short_def)

lemma create_unit_leg_entryB:
  "create_unit_leg ''entryB'' ''EUR.USD'' 7 example_file =
     Inr ([(''entry_order'',
            \<lparr>orderId = 7, ord_action = '''', ord_orderType = '''', ord_totalQuantity = 0,
             ord_transmit = False, ord_tif = ''GTC'', parentId = None,
             ord_orderRef = Some '''',
             conditions = [\<lparr>pc_isMore = False, pc_price = 0\<rparr>]\<rparr>),
           (''sl_order'',
            \<lparr>orderId = 8, ord_action = '''', ord_orderType = '''', ord_totalQuantity = 0,
             ord_transmit = False, ord_tif = ''GTC'', parentId = Some 7,
             ord_orderRef = Some ''EUR.USDsl'',
             conditions = [\<lparr>pc_isMore = True, pc_price = 0\<rparr>]\<rparr>),
           (''exit_order'',
            \<lparr>orderId = 9, ord_action = '''', ord_orderType = '''', ord_totalQuantity = 0,
             ord_transmit = True, ord_tif = ''GTC'', parentId = Some 7,
             ord_orderRef = Some ''EUR.USDexit'',
             conditions = [\<lparr>pc_isMore = True, pc_price = 1\<rparr>]\<rparr>)], 10)"
  by (simp add: create_unit_leg_def get_data_from_json_def long_unit_def
      blank_order_info_def create_order_def last_char_def)

text \<open>
  C3. The long unit of the example record (maximum 60000, current 15000) has three
  tranches open. The \<^verbatim>\<open>elif\<close> chain picks the one tag \<^verbatim>\<open>entryB\<close> for three, two and
  one remaining orders alike, so the orders placed are one entry (the order without a
  parent) with its stop and its exit. Their quantity is the one stored under
  \<^verbatim>\<open>entryB\<close> in the file, 0 here, and not the 15000 that
  \<^verbatim>\<open>generate_compound_entry_info\<close> computes as a quarter of the maximum unit size.
\<close>

theorem compound_orders_one_entry_only:
  "remaining_orders 60000 15000 = Inr 3 \<and>
   compound_order_json_tags 3 = [''entryB''] \<and>
   compound_order_json_tags 2 = [''entryB''] \<and>
   compound_order_json_tags 1 = [''entryB''] \<and>
   map_sum id (\<lambda>p. map parentId (fst p))
       (place_compound_orders ''EUR.USD'' (1 / 8) 3 7 example_file) =
     Inr [None, Some 7, Some 7] \<and>
   map_sum id (\<lambda>p. map ord_totalQuantity (fst p))
       (place_compound_orders ''EUR.USD'' (1 / 8) 3 7 example_file) =
     Inr [0, 0, 0] \<and>
   map_sum id (\<lambda>m. map_option ce_totalQuantity (m ''entryB''))
       (generate_compound_entry_info ''EUR.USD'' (1 / 8) [''entryB''] example_file) =
     Inr (Some 15000)"
  by (simp add: remaining_orders_def place_compound_orders_def
      compound_order_json_tags_entryB generate_compound_entry_info_long
      create_unit_leg_entryB)

lemma compound_entry_for_short_negates:
  "isLong (unitInfo ud) = Flag False \<Longrightarrow> isShort (unitInfo ud) = Flag True \<Longrightarrow>
   map_of (entryInfo ud) ''entryA'' = Some e \<Longrightarrow>
   compound_entry_for ud s sl ''entryB'' = Inr ce \<Longrightarrow>
   ce_priceCondition ce = Some (- priceCondition e - 1 * sl) \<and>
   ce_slPrice ce = Some (- priceCondition e - 1 * sl + sl)"
  by (auto simp: compound_entry_for_def truthy_def)

lemma compound_entry_for_long_offsets:
  "isLong (unitInfo ud) = Flag True \<Longrightarrow>
   map_of (entryInfo ud) ''entryA'' = Some e \<Longrightarrow>
   compound_entry_for ud s sl ''entryB'' = Inr ce \<Longrightarrow>
   ce_priceCondition ce = Some (priceCondition e + 1 * sl) \<and>
   ce_slPrice ce = Some (priceCondition e + 1 * sl - sl)"
  by (auto simp: compound_entry_for_def truthy_def)

text \<open>
  C4. A short unit whose first entry triggered at 5/4, a stop size of 1/8 and the tag
  \<^verbatim>\<open>entryB\<close> (offset 1). \<^verbatim>\<open>generate_compound_entry_info\<close> of whipsaw_0.2.py negates
  the previous price: the trigger is -11/8 and the stop -5/4, where the previous price
  less one stop size is 9/8. \<^verbatim>\<open>go_short\<close> of whipsaw_0.1.py, for the same previous price,
  gives a trigger of 9/8 and a stop of 5/4. For the long unit of the same previous price
  whipsaw_0.2.py gives 11/8 and 5/4.
\<close>

theorem compound_short_price_negated:
  "priceCondition entryA_short = 5 / 4 \<and>
   map_sum id (\<lambda>m. map_option ce_priceCondition (m ''entryB''))
       (generate_compound_entry_info ''EUR.USD'' (1 / 8) [''entryB''] short_file) =
     Inr (Some (Some (- (11 / 8)))) \<and>
   map_sum id (\<lambda>m. map_option ce_slPrice (m ''entryB''))
       (generate_compound_entry_info ''EUR.USD'' (1 / 8) [''entryB''] short_file) =
     Inr (Some (Some (- (5 / 4)))) \<and>
   (5 / 4 - 1 * (1 / 8) :: rat) = 9 / 8 \<and>
   map_sum id (\<lambda>p. map (\<lambda>ord. map pc_price (conditions ord)) (fst p))
       (go_short ''EUR.USD'' example_indicators usd_account
          (go_defaults\<lparr>g_offset := 1, g_is_compound_order := True,
             g_last_fill_price := Some (5 / 4)\<rparr>) 1) =
     Inr [[9 / 8], [5 / 4], [5 / 4]] \<and>
   map_sum id (\<lambda>m. map_option ce_priceCondition (m ''entryB''))
       (generate_compound_entry_info ''EUR.USD'' (1 / 8) [''entryB''] example_file) =
     Inr (Some (Some (11 / 8)))"
  by (simp add: generate_compound_entry_info_short generate_compound_entry_info_long
      entryA_short_def go_short_def go_defaults_def example_indicators_def usd_account_def
      get_atr_multiple_def adjust_for_price_increments_def set_position_size_def last3_def
      place_order_def create_order_def is_compound_def)

subsection \<open>Quantities\<close>

lemma py_round_two_fifths: "py_round (2 / 5) = 0"
  by code_simp

text \<open>
  C9. A short unit has a live cash balance below -100, here -15000, and \<^verbatim>\<open>run\<close> of
  whipsaw_0.1.py (lines 273-276) passes that balance as the quantity of the exit-all
  order: the order has the quantity -15000. The long unit of the same size gets 15000.
  With available funds of 10 and a stop size of 1/8 the position size rounds to 0, and
  the initial entry, its stop and its exit have quantity 0.
\<close>

theorem exit_all_quantity_signed:
  "classify (- 15000) = Short \<and>
   go_short ''EUR.USD'' example_indicators usd_account
       (go_defaults\<lparr>g_total_quantity := Some (- 15000), g_is_exit_all := True\<rparr>) 1 =
     Inr ([\<lparr>orderId = 1, ord_action = ''BUY'', ord_orderType = ''MKT'',
            ord_totalQuantity = - 15000, ord_transmit = True, ord_tif = ''GTC'',
            parentId = None, ord_orderRef = Some ''EUR.USD_short_exit_all'',
            conditions = [\<lparr>pc_isMore = True, pc_price = 11 / 8\<rparr>]\<rparr>], 2) \<and>
   map_sum id (\<lambda>p. map ord_totalQuantity (fst p))
       (go_long ''EUR.USD'' example_indicators usd_account
          (go_defaults\<lparr>g_total_quantity := Some 15000, g_is_exit_all := True\<rparr>) 1) =
     Inr [15000] \<and>
   set_position_size ''EUR.USD'' (usd_account\<lparr>available_funds := 10\<rparr>) (Some (1 / 8)) =
     Inr 0 \<and>
   map_sum id (\<lambda>p. map ord_totalQuantity (fst p))
       (go_long ''EUR.USD'' example_indicators (usd_account\<lparr>available_funds := 10\<rparr>)
          go_defaults 1) =
     Inr [0, 0, 0]"
  by (simp add: classify_def go_short_def go_long_def go_defaults_def
      example_indicators_def usd_account_def get_atr_multiple_def
      adjust_for_price_increments_def set_position_size_def last3_def place_order_def
      create_order_def is_compound_def py_round_two_fifths)

subsection \<open>The run loop\<close>

lemma run_append:
  "run body (xs @ ys) s =
     (case run body xs s of
        (s', Some e) \<Rightarrow> (s', Some e)
      | (s', None) \<Rightarrow> run body ys s')"
  by (induction xs arbitrary: s) (auto split: prod.splits option.splits)

lemma batch_file_eur [simp]: "batch_file ''EUR.USD'' = Some short_unit"
  by (simp add: batch_file_def)

lemma batch_file_gbp [simp]: "batch_file ''GBP.JPY'' = Some flat_unit"
  by (simp add: batch_file_def)

lemma generate_initial_entry_info_gbp:
  "generate_initial_entry_info ''GBP.JPY'' (r_indicators gbp_reading) (r_account gbp_reading) =
     Inr (\<lparr>action = ''BUY'', orderType = ''MKT'', tif = ''GTC'', totalQuantity = 64000,
           transmit = False, priceCondition = 150, orderRef = ''GBP.JPYentryA'',
           isMore = True, slPrice = 149\<rparr>,
          \<lparr>action = ''SELL'', orderType = ''MKT'', tif = ''GTC'', totalQuantity = 64000,
           transmit = False, priceCondition = 140, orderRef = ''GBP.JPYentryA'',
           isMore = False, slPrice = 141\<rparr>)"
  by (simp add: generate_initial_entry_info_def gbp_reading_def get_atr_multiple_def
      adjust_for_price_increments_def set_position_size_def get_base_exchange_def last3_def)

lemma run_body_eur:
  "json_file v ''EUR.USD'' = Some short_unit \<Longrightarrow>
   run_body eur_reading v =
     (v\<lparr>json_file := (json_file v)(''EUR.USD'' \<mapsto>
          short_unit\<lparr>unitInfo := (unitInfo short_unit)\<lparr>exitAllPrice := 11 / 8\<rparr>\<rparr>)\<rparr>,
      Some TypeError)"
  by (simp add: run_body_def eur_reading_def usd_account_def example_indicators_def
      get_base_exchange_def last3_def get_atr_multiple_def adjust_for_price_increments_def
      not_full_branch_def save_unit_info_to_json_result stored_unit_info_def store_defs
      no_kwargs_def get_data_from_json_def short_unit_def entryA_short_def)


lemma create_initial_entry_orders_gbp:
  "file ''GBP.JPY'' =
     Some (flat_unit\<lparr>unitInfo := (unitInfo flat_unit)
        \<lparr>maxUnitSize := 256000,
         longEntry :=
           \<lparr>action = ''BUY'', orderType = ''MKT'', tif = ''GTC'', totalQuantity = 64000,
            transmit = False, priceCondition = 150, orderRef = ''GBP.JPYentryA'',
            isMore = True, slPrice = 149\<rparr>,
         shortEntry :=
           \<lparr>action = ''SELL'', orderType = ''MKT'', tif = ''GTC'', totalQuantity = 64000,
            transmit = False, priceCondition = 140, orderRef = ''GBP.JPYentryA'',
            isMore = False, slPrice = 141\<rparr>\<rparr>\<rparr>) \<Longrightarrow>
   create_initial_entry_orders ''GBP.JPY'' (Suc 0) file =
     Inr ([\<lparr>orderId = 1, ord_action = ''BUY'', ord_orderType = ''MKT'',
            ord_totalQuantity = 64000, ord_transmit = False, ord_tif = ''GTC'',
            parentId = None, ord_orderRef = Some ''GBP.JPYentryA'',
            conditions = [\<lparr>pc_isMore = True, pc_price = 150\<rparr>]\<rparr>,
           \<lparr>orderId = 2, ord_action = ''SELL'', ord_orderType = ''MKT'',
            ord_totalQuantity = 64000, ord_transmit = False, ord_tif = ''GTC'',
            parentId = Some 1, ord_orderRef = Some ''GBP.JPYslA'',
            conditions = [\<lparr>pc_isMore = False, pc_price = 149\<rparr>]\<rparr>,
           \<lparr>orderId = 3, ord_action = ''SELL'', ord_orderType = ''MKT'',
            ord_totalQuantity = 64000, ord_transmit = True, ord_tif = ''GTC'',
            parentId = Some 1, ord_orderRef = Some ''GBP.JPYexitA'',
            conditions = [\<lparr>pc_isMore = False, pc_price = 0\<rparr>]\<rparr>,
           \<lparr>orderId = 4, ord_action = ''SELL'', ord_orderType = ''MKT'',
            ord_totalQuantity = 64000, ord_transmit = False, ord_tif = ''GTC'',
            parentId = None, ord_orderRef = Some ''GBP.JPYentryA'',
            conditions = [\<lparr>pc_isMore = False, pc_price = 140\<rparr>]\<rparr>,
           \<lparr>orderId = 5, ord_action = ''BUY'', ord_orderType = ''MKT'',
            ord_totalQuantity = 64000, ord_transmit = False, ord_tif = ''GTC'',
            parentId = Some 4, ord_orderRef = Some ''GBP.JPYslA'',
            conditions = [\<lparr>pc_isMore = True, pc_price = 141\<rparr>]\<rparr>,
           \<lparr>orderId = 6, ord_action = ''BUY'', ord_orderType = ''MKT'',
            ord_totalQuantity = 64000, ord_transmit = True, ord_tif = ''GTC'',
            parentId = Some 4, ord_orderRef = Some ''GBP.JPYexitA'',
            conditions = [\<lparr>pc_isMore = True, pc_price = 0\<rparr>]\<rparr>],
          \<lparr>oca_symbol = ''GBP.JPY'', oca_req_id = 7, oca_type = 1, oca_members = [1, 4]\<rparr>,
          8)"
  by (simp add: create_initial_entry_orders_def create_unit_leg_def get_data_from_json_def
      flat_unit_def create_order_def last_char_def Let_def)

lemma run_body_gbp:
  "run_body gbp_reading batch_venue =
     (\<lparr>json_file = batch_file(''GBP.JPY'' \<mapsto>
          flat_unit\<lparr>unitInfo := (unitInfo flat_unit)
            \<lparr>maxUnitSize := 256000,
             longEntry :=
               \<lparr>action = ''BUY'', orderType = ''MKT'', tif = ''GTC'', totalQuantity = 64000,
                transmit = False, priceCondition = 150, orderRef = ''GBP.JPYentryA'',
                isMore = True, slPrice = 149\<rparr>,
             shortEntry :=
               \<lparr>action = ''SELL'', orderType = ''MKT'', tif = ''GTC'', totalQuantity = 64000,
                transmit = False, priceCondition = 140, orderRef = ''GBP.JPYentryA'',
                isMore = False, slPrice = 141\<rparr>\<rparr>\<rparr>),
       open_orders =
         map (Pair ''GBP.JPY'')
          [\<lparr>orderId = 1, ord_action = ''BUY'', ord_orderType = ''MKT'',
            ord_totalQuantity = 64000, ord_transmit = False, ord_tif = ''GTC'',
            parentId = None, ord_orderRef = Some ''GBP.JPYentryA'',
            conditions = [\<lparr>pc_isMore = True, pc_price = 150\<rparr>]\<rparr>,
           \<lparr>orderId = 2, ord_action = ''SELL'', ord_orderType = ''MKT'',
            ord_totalQuantity = 64000, ord_transmit = False, ord_tif = ''GTC'',
            parentId = Some 1, ord_orderRef = Some ''GBP.JPYslA'',
            conditions = [\<lparr>pc_isMore = False, pc_price = 149\<rparr>]\<rparr>,
           \<lparr>orderId = 3, ord_action = ''SELL'', ord_orderType = ''MKT'',
            ord_totalQuantity = 64000, ord_transmit = True, ord_tif = ''GTC'',
            parentId = Some 1, ord_orderRef = Some ''GBP.JPYexitA'',
            conditions = [\<lparr>pc_isMore = False, pc_price = 0\<rparr>]\<rparr>,
           \<lparr>orderId = 4, ord_action = ''SELL'', ord_orderType = ''MKT'',
            ord_totalQuantity = 64000, ord_transmit = False, ord_tif = ''GTC'',
            parentId = None, ord_orderRef = Some ''GBP.JPYentryA'',
            conditions = [\<lparr>pc_isMore = False, pc_price = 140\<rparr>]\<rparr>,
           \<lparr>orderId = 5, ord_action = ''BUY'', ord_orderType = ''MKT'',
            ord_totalQuantity = 64000, ord_transmit = False, ord_tif = ''GTC'',
            parentId = Some 4, ord_orderRef = Some ''GBP.JPYslA'',
            conditions = [\<lparr>pc_isMore = True, pc_price = 141\<rparr>]\<rparr>,
           \<lparr>orderId = 6, ord_action = ''BUY'', ord_orderType = ''MKT'',
            ord_totalQuantity = 64000, ord_transmit = True, ord_tif = ''GTC'',
            parentId = Some 4, ord_orderRef = Some ''GBP.JPYexitA'',
            conditions = [\<lparr>pc_isMore = True, pc_price = 0\<rparr>]\<rparr>],
       oca_groups =
         [\<lparr>oca_symbol = ''GBP.JPY'', oca_req_id = 7, oca_type = 1, oca_members = [1, 4]\<rparr>],
       next_id = 8\<rparr>, None)"
proof -
  have s: "r_symbol gbp_reading = ''GBP.JPY''" "r_max_equity_at_risk gbp_reading = 2000"
    "r_cash_balance gbp_reading = 0"
    by (simp_all add: gbp_reading_def)
  have be: "get_base_exchange ''GBP.JPY'' (r_account gbp_reading) = Inr (1 / 128)"
    by (simp add: gbp_reading_def get_base_exchange_def last3_def)
  have sl: "get_atr_multiple ''GBP.JPY'' (r_indicators gbp_reading) (1 / 2) = Some 1"
    by (simp add: gbp_reading_def get_atr_multiple_def adjust_for_price_increments_def)
  have cl: "clear_orders_from_json ''GBP.JPY'' all_order_names batch_file = Inr batch_file"
    using batch_file_gbp by (rule clear_orders_from_json_same)
  show ?thesis
    by (simp add: run_body_def s be sl flat_branch_def batch_venue_def cl
        generate_initial_entry_info_gbp save_unit_info_to_json_result stored_unit_info_def
        store_defs no_kwargs_def create_initial_entry_orders_gbp)
qed

text \<open>
  C7, as the code has it. An exception raised while one instrument is processed is not
  caught: when the instruments before it are processed without one and the body raises on
  instrument \<open>i\<close>, the loop ends there with that exception and the state the body left,
  whatever instruments \<open>rest\<close> come after: none of them is processed.
\<close>

theorem run_stops_at_first_error:
  "run body pre s0 = (s, None) \<Longrightarrow> body i s = (s', Some e) \<Longrightarrow>
   run body (pre @ i # rest) s0 = (s', Some e)"
  by (simp add: run_append)

theorem run_stops_at_first_error_witness:
  "\<exists>s s'. run run_body [gbp_reading] batch_venue = (s, None) \<and>
     run_body eur_reading s = (s', Some TypeError) \<and>
     run run_body ([gbp_reading] @ eur_reading # [gbp_reading]) batch_venue =
       (s', Some TypeError) \<and>
     map (\<lambda>t. (fst t, orderId (snd t))) (open_orders s') =
       [(''GBP.JPY'', 1), (''GBP.JPY'', 2), (''GBP.JPY'', 3), (''GBP.JPY'', 4),
        (''GBP.JPY'', 5), (''GBP.JPY'', 6)] \<and>
     next_id s' = 8 \<and>
     map_option (\<lambda>u. exitAllPrice (unitInfo u)) (json_file s' ''EUR.USD'') = Some (11 / 8)"
proof -
  let ?s = "fst (run run_body [gbp_reading] batch_venue)"
  let ?s' = "?s\<lparr>json_file := (json_file ?s)(''EUR.USD'' \<mapsto>
      short_unit\<lparr>unitInfo := (unitInfo short_unit)\<lparr>exitAllPrice := 11 / 8\<rparr>\<rparr>)\<rparr>"
  have a: "run run_body [gbp_reading] batch_venue = (?s, None)"
    by (simp add: run_body_gbp)
  have f: "json_file ?s ''EUR.USD'' = Some short_unit"
    by (simp add: run_body_gbp)
  have b: "run_body eur_reading ?s = (?s', Some TypeError)"
    using f by (rule run_body_eur)
  have r: "run run_body ([gbp_reading] @ eur_reading # [gbp_reading]) batch_venue =
      (?s', Some TypeError)"
    using a b by (rule run_stops_at_first_error)
  have p: "map (\<lambda>t. (fst t, orderId (snd t))) (open_orders ?s') =
      [(''GBP.JPY'', 1), (''GBP.JPY'', 2), (''GBP.JPY'', 3), (''GBP.JPY'', 4),
       (''GBP.JPY'', 5), (''GBP.JPY'', 6)]"
    by (simp add: run_body_gbp)
  have n: "next_id ?s' = 8"
    by (simp add: run_body_gbp)
  have x: "map_option (\<lambda>u. exitAllPrice (unitInfo u)) (json_file ?s' ''EUR.USD'') =
      Some (11 / 8)"
    by simp
  show ?thesis
    by (rule exI [of _ ?s], rule exI [of _ ?s']) (intro conjI a b r p n x)
qed

text \<open>
  A batch of two instruments: a short unit in EUR.USD that is not full, then GBP.JPY
  without a position. Alone, GBP.JPY is processed without an exception and its six initial
  orders are placed. In the batch the exception raised for EUR.USD, after its record has
  been rewritten, ends the run: no order is placed for GBP.JPY and its record is as it
  was.
\<close>

theorem run_aborts_batch:
  "run run_body [eur_reading, gbp_reading] batch_venue =
     (batch_venue\<lparr>json_file := batch_file(''EUR.USD'' \<mapsto>
        short_unit\<lparr>unitInfo := (unitInfo short_unit)\<lparr>exitAllPrice := 11 / 8\<rparr>\<rparr>)\<rparr>,
      Some TypeError) \<and>
   open_orders (fst (run run_body [eur_reading, gbp_reading] batch_venue)) = [] \<and>
   json_file (fst (run run_body [eur_reading, gbp_reading] batch_venue)) ''GBP.JPY'' =
     Some flat_unit \<and>
   snd (run run_body [gbp_reading] batch_venue) = None \<and>
   map (\<lambda>t. (fst t, orderId (snd t)))
       (open_orders (fst (run run_body [gbp_reading] batch_venue))) =
     [(''GBP.JPY'', 1), (''GBP.JPY'', 2), (''GBP.JPY'', 3), (''GBP.JPY'', 4),
      (''GBP.JPY'', 5), (''GBP.JPY'', 6)]"
proof -
  have f: "json_file batch_venue ''EUR.USD'' = Some short_unit"
    by (simp add: batch_venue_def)
  have e: "run_body eur_reading batch_venue =
      (batch_venue\<lparr>json_file := (json_file batch_venue)(''EUR.USD'' \<mapsto>
         short_unit\<lparr>unitInfo := (unitInfo short_unit)\<lparr>exitAllPrice := 11 / 8\<rparr>\<rparr>)\<rparr>,
       Some TypeError)"
    using f by (rule run_body_eur)
  have j: "json_file batch_venue = batch_file"
    by (simp add: batch_venue_def)
  have a: "run run_body [eur_reading, gbp_reading] batch_venue =
      (batch_venue\<lparr>json_file := batch_file(''EUR.USD'' \<mapsto>
         short_unit\<lparr>unitInfo := (unitInfo short_unit)\<lparr>exitAllPrice := 11 / 8\<rparr>\<rparr>)\<rparr>,
       Some TypeError)"
    by (simp add: e j)
  have b: "open_orders (fst (run run_body [eur_reading, gbp_reading] batch_venue)) = []"
    by (simp only: a fst_conv) (simp add: batch_venue_def)
  have c: "json_file (fst (run run_body [eur_reading, gbp_reading] batch_venue)) ''GBP.JPY'' =
      Some flat_unit"
    by (simp only: a fst_conv) simp
  have d: "snd (run run_body [gbp_reading] batch_venue) = None"
    by (simp add: run_body_gbp)
  have g: "map (\<lambda>t. (fst t, orderId (snd t)))
       (open_orders (fst (run run_body [gbp_reading] batch_venue))) =
     [(''GBP.JPY'', 1), (''GBP.JPY'', 2), (''GBP.JPY'', 3), (''GBP.JPY'', 4),
      (''GBP.JPY'', 5), (''GBP.JPY'', 6)]"
    by (simp add: run_body_gbp)
  show ?thesis
    by (intro conjI a b c d g)
qed

end
